theory Spec2Isabelle
  imports Main "HOL-Library.Code_Target_Nat"
begin

section \<open>Strings\<close>

text \<open>
  A JavaScript string is modelled as the list of its code points. The operations of
  the program that look at single characters (\<open>trim\<close>, the classes \<open>\s\<close>, \<open>\w\<close> and
  \<open>[a-z]\<close>, \<open>escape\<close>) only tell apart characters of the Basic Multilingual Plane, and
  a code point above it is, like each of its two surrogates, neither whitespace nor a
  word character; so the list of code points behaves as the list of code units does.
  Texts that the program itself writes (messages, field names) stay of type \<open>string\<close>.
\<close>

type_synonym ustring = "nat list"

definition js :: "string \<Rightarrow> ustring" where
  \<comment> \<open>the code points of a literal\<close>
  "js s = map of_char s"

definition is_space :: "nat \<Rightarrow> bool" where
  \<comment> \<open>WhiteSpace and LineTerminator of ECMAScript, which is also the class \<open>\s\<close>: TAB, LF,
      VT, FF, CR, SP, U+00A0, U+1680, U+2000 to U+200A, U+2028, U+2029, U+202F, U+205F,
      U+3000, U+FEFF\<close>
  "is_space c =
     ((9 \<le> c \<and> c \<le> 13) \<or> c = 32 \<or> c = 160 \<or> c = 5760 \<or> (8192 \<le> c \<and> c \<le> 8202) \<or>
      c = 8232 \<or> c = 8233 \<or> c = 8239 \<or> c = 8287 \<or> c = 12288 \<or> c = 65279)"

definition is_upper :: "nat \<Rightarrow> bool" where
  \<comment> \<open>the class \<open>[A-Z]\<close>\<close>
  "is_upper c = (65 \<le> c \<and> c \<le> 90)"

definition is_lower :: "nat \<Rightarrow> bool" where
  \<comment> \<open>the class \<open>[a-z]\<close>\<close>
  "is_lower c = (97 \<le> c \<and> c \<le> 122)"

definition is_digit :: "nat \<Rightarrow> bool" where
  "is_digit c = (48 \<le> c \<and> c \<le> 57)"

definition is_word :: "nat \<Rightarrow> bool" where
  \<comment> \<open>the class \<open>\w\<close>, which decides where \<open>\b\<close> holds: \<open>[A-Za-z0-9_]\<close>\<close>
  "is_word c = (is_upper c \<or> is_lower c \<or> is_digit c \<or> c = 95)"

definition to_lower :: "nat \<Rightarrow> nat" where
  \<comment> \<open>lowercase within ASCII\<close>
  "to_lower c = (if is_upper c then c + 32 else c)"

definition to_upper :: "nat \<Rightarrow> nat" where
  \<comment> \<open>\<open>c.toUpperCase()\<close> for a match of \<open>[a-z]\<close>; any other code point is left alone\<close>
  "to_upper c = (if is_lower c then c - 32 else c)"

definition trim :: "ustring \<Rightarrow> ustring" where
  \<comment> \<open>\<open>String.prototype.trim\<close>, and the \<open>trim()\<close> sanitizer of the validators\<close>
  "trim s = rev (dropWhile is_space (rev (dropWhile is_space s)))"

subsection \<open>Lowercasing\<close>

text \<open>
  \<open>String.prototype.toLowerCase\<close> follows the Unicode character database, which is not
  part of the sources; the database is a parameter of the model. \<open>lc\<close> and \<open>uc\<close> give
  the lowercase and the uppercase mapping of a code point (one code point or several),
  and \<open>final_sigma\<close> is the test of the context Final_Sigma, given the code points before
  the capital sigma, nearest first, and those after it. The capital sigma U+03A3 is the
  one code point whose lowercase depends on its context: U+03C2 in Final_Sigma, U+03C3
  otherwise.
\<close>

record unicode =
  lc :: "nat \<Rightarrow> nat list"
  uc :: "nat \<Rightarrow> nat list"
  final_sigma :: "nat list \<Rightarrow> nat list \<Rightarrow> bool"

definition lower_at :: "unicode \<Rightarrow> nat list \<Rightarrow> nat \<Rightarrow> nat list \<Rightarrow> nat list" where
  "lower_at U left c right =
     (if c = 931 then [if final_sigma U left right then 962 else 963] else lc U c)"

fun lower_from :: "unicode \<Rightarrow> nat list \<Rightarrow> ustring \<Rightarrow> ustring" where
  "lower_from U left [] = []"
| "lower_from U left (c # cs) = lower_at U left c cs @ lower_from U (c # left) cs"

definition toLowerCase :: "unicode \<Rightarrow> ustring \<Rightarrow> ustring" where
  "toLowerCase U s = lower_from U [] s"

text \<open>
  The facts of the character database that the proofs below use. Within ASCII the
  mappings are those of the letters \<open>A\<close> to \<open>Z\<close> and \<open>a\<close> to \<open>z\<close>. A lowercase mapping is
  never empty, and each code point in it is its own lowercase, is not the capital
  sigma, and is whitespace exactly if the mapped code point is.
\<close>

definition lc_ascii :: "unicode \<Rightarrow> bool" where
  "lc_ascii U = (\<forall>c < 128. lc U c = [to_lower c])"

definition uc_ascii :: "unicode \<Rightarrow> bool" where
  "uc_ascii U = (\<forall>c < 128. uc U c = [to_upper c])"

definition lowercase_stable :: "unicode \<Rightarrow> bool" where
  "lowercase_stable U =
     ((\<forall>c. c \<noteq> 931 \<longrightarrow>
          lc U c \<noteq> [] \<and>
          (\<forall>d \<in> set (lc U c). d \<noteq> 931 \<and> lc U d = [d] \<and> is_space d = is_space c)) \<and>
      lc U 962 = [962] \<and> lc U 963 = [963])"

subsection \<open>Title case\<close>

text \<open>
  \<open>replace(/\b[a-z]/g, c => c.toUpperCase())\<close>: every match is one character long, and
  \<open>\b\<close> before a letter of \<open>[a-z]\<close> holds exactly when the character before it in the
  subject string is not a word character, or there is none. The flag says whether the
  previous character of the subject is a word character.
\<close>

fun replace_boundary :: "bool \<Rightarrow> ustring \<Rightarrow> ustring" where
  "replace_boundary prev [] = []"
| "replace_boundary prev (c # cs) =
     (if \<not> prev \<and> is_lower c then to_upper c else c) # replace_boundary (is_word c) cs"

definition titleCase :: "unicode \<Rightarrow> ustring \<Rightarrow> ustring" where
  \<comment> \<open>\<open>s.toString().trim().toLowerCase().replace(/\b[a-z]/g, c => c.toUpperCase())\<close>\<close>
  "titleCase U s = replace_boundary False (toLowerCase U (trim s))"




section \<open>The validators' sanitizers\<close>

text \<open>
  \<open>escape()\<close> of the validation library replaces \<open>&\<close> first and then the other seven
  characters, none of which occurs in a replacement text, so the eight passes amount to
  one pass over the characters.
\<close>

definition escape_char :: "nat \<Rightarrow> ustring" where
  "escape_char c =
     (if c = 38 then js ''&amp;''
      else if c = 34 then js ''&quot;''
      else if c = 39 then js ''&#x27;''
      else if c = 60 then js ''&lt;''
      else if c = 62 then js ''&gt;''
      else if c = 47 then js ''&#x2F;''
      else if c = 92 then js ''&#x5C;''
      else if c = 96 then js ''&#96;''
      else [c])"

definition escape :: "ustring \<Rightarrow> ustring" where
  "escape s = concat (map escape_char s)"

definition field_value :: "ustring option \<Rightarrow> ustring" where
  \<comment> \<open>a sanitizer reads an absent field as the empty string\<close>
  "field_value v = (case v of None \<Rightarrow> [] | Some x \<Rightarrow> x)"

section \<open>The store and the connection pool\<close>

record customer =
  c_code :: ustring
  c_name :: ustring
  c_city :: "ustring option"

type_synonym db_row = string

text \<open>
  One \<open>assignment\<close> is one entry of \<open>fields\<close> together with its entry of \<open>params\<close>:
  \<open>cust_name=?\<close> with a string, \<open>cust_city=?\<close> with a string or \<open>null\<close>.
\<close>

datatype assignment = SetName ustring | SetCity "ustring option"

datatype stmt =
    SelectOk
  | SelectCustomers
  | SelectOrders
  | SelectFoods
  | Insert ustring ustring "ustring option"
  | Update "assignment list" ustring
  | Delete ustring

datatype db_error = PoolTimeout | DuplicateKey | StoreFault

datatype qresult =
    OkRows "nat list"
  | CustomerRows "customer list"
  | Rows "db_row list"
  | Affected nat

datatype event = Acquire | AcquireFailed | Query stmt | Release

record server =
  customers :: "customer list"
  orders :: "db_row list"
  foods :: "db_row list"
  in_use :: nat
  trace :: "event list"

text \<open>
  What the surroundings decide for one request: whether obtaining a connection fails,
  and whether the statement fails for a reason outside its own meaning (a lost
  connection, a timeout). A statement that fails changes nothing.
\<close>

record env =
  conn_fault :: bool
  query_fault :: bool

fun assign :: "assignment \<Rightarrow> customer \<Rightarrow> customer" where
  "assign (SetName n) r = r\<lparr>c_name := n\<rparr>"
| "assign (SetCity c) r = r\<lparr>c_city := c\<rparr>"

definition apply_update :: "assignment list \<Rightarrow> ustring \<Rightarrow> customer \<Rightarrow> customer" where
  "apply_update as k r = (if c_code r = k then fold assign as r else r)"

definition matching :: "ustring \<Rightarrow> customer list \<Rightarrow> nat" where
  "matching k rows = length (filter (\<lambda>r. c_code r = k) rows)"

text \<open>
  Modelled from the spec: the customer table and the meaning of the statements, which
  belong to the database and not to the sources. A row has a code, a name and an
  optional city; the code is the unique key, so an insert of an existing code fails;
  an update or a delete addresses the rows whose code equals the parameter and reports
  how many there are; a list query returns at most the first 50 rows.
\<close>

fun run_stmt :: "stmt \<Rightarrow> server \<Rightarrow> db_error + (qresult \<times> server)" where
  "run_stmt SelectOk s = Inr (OkRows [1], s)"
| "run_stmt SelectCustomers s = Inr (CustomerRows (take 50 (customers s)), s)"
| "run_stmt SelectOrders s = Inr (Rows (take 50 (orders s)), s)"
| "run_stmt SelectFoods s = Inr (Rows (take 50 (foods s)), s)"
| "run_stmt (Insert k n c) s =
     (if matching k (customers s) \<noteq> 0 then Inl DuplicateKey
      else Inr (Affected 1,
                s\<lparr>customers := customers s @ [\<lparr>c_code = k, c_name = n, c_city = c\<rparr>]\<rparr>))"
| "run_stmt (Update as k) s =
     Inr (Affected (matching k (customers s)),
          s\<lparr>customers := map (apply_update as k) (customers s)\<rparr>)"
| "run_stmt (Delete k) s =
     Inr (Affected (matching k (customers s)),
          s\<lparr>customers := filter (\<lambda>r. c_code r \<noteq> k) (customers s)\<rparr>)"

definition connectionLimit :: nat where
  "connectionLimit = 5"

text \<open>
  \<open>pool.getConnection()\<close>: requests are handled one after the other here, so a
  connection that is in use stays in use, and a request that finds all
  \<open>connectionLimit\<close> connections in use is rejected when its wait times out.
\<close>

definition getConnection :: "env \<Rightarrow> server \<Rightarrow> (db_error + unit) \<times> server" where
  "getConnection e s =
     (if conn_fault e \<or> connectionLimit \<le> in_use s
      then (Inl PoolTimeout, s\<lparr>trace := trace s @ [AcquireFailed]\<rparr>)
      else (Inr (), s\<lparr>in_use := Suc (in_use s), trace := trace s @ [Acquire]\<rparr>))"

definition query :: "env \<Rightarrow> stmt \<Rightarrow> server \<Rightarrow> (db_error + qresult) \<times> server" where
  "query e q s =
     (let s1 = s\<lparr>trace := trace s @ [Query q]\<rparr>
      in if query_fault e then (Inl StoreFault, s1)
         else (case run_stmt q s1 of
                 Inl err \<Rightarrow> (Inl err, s1)
               | Inr (res, s2) \<Rightarrow> (Inr res, s2)))"

definition release :: "server \<Rightarrow> server" where
  "release s = s\<lparr>in_use := in_use s - 1, trace := trace s @ [Release]\<rparr>"

definition affectedRows :: "qresult \<Rightarrow> nat" where
  "affectedRows res = (case res of Affected n \<Rightarrow> n | _ \<Rightarrow> 0)"

definition events_of :: "server \<Rightarrow> server \<Rightarrow> event list" where
  \<comment> \<open>what a handler that took the server from \<open>s\<close> to \<open>s'\<close> did to the pool and the store\<close>
  "events_of s s' = drop (length (trace s)) (trace s')"

definition stored :: "server \<Rightarrow> customer list \<times> db_row list \<times> db_row list" where
  \<comment> \<open>the stored state: the three tables, without the pool and the trace\<close>
  "stored s = (customers s, orders s, foods s)"

section \<open>Requests and responses\<close>

text \<open>
  \<open>req.body\<close> is an object, or \<open>undefined\<close> when the request carried no body that the
  JSON middleware parsed (\<open>None\<close>; a version of the framework that sets \<open>{}\<close> then
  gives \<open>Some\<close> of the record without fields). A field of the object is absent or holds
  a string: the sanitizers turn any other scalar into a string before a handler reads
  it, \<open>null\<close> into the empty string.
\<close>

record req_body =
  cust_code :: "ustring option"
  cust_name :: "ustring option"
  cust_city :: "ustring option"

record request =
  params_id :: ustring
  body :: "req_body option"

definition body_field :: "req_body option \<Rightarrow> (req_body \<Rightarrow> ustring option) \<Rightarrow> ustring option" where
  \<comment> \<open>a validator reads a field of a missing body as absent\<close>
  "body_field b f = (case b of None \<Rightarrow> None | Some x \<Rightarrow> f x)"

datatype res_body =
    Health string bool
  | Json qresult
  | Created string customer
  | Message string
  | Error string
  | DbError db_error
  | ValidationErrors "string list"

type_synonym response = "nat \<times> res_body"

definition status :: "response \<times> server \<Rightarrow> nat" where
  "status out = fst (fst out)"

section \<open>The handlers\<close>

definition get_health :: "env \<Rightarrow> server \<Rightarrow> response \<times> server" where
  "get_health e s =
     (case getConnection e s of
        (Inl err, s1) \<Rightarrow> ((500, Health ''error'' False), s1)
      | (Inr c, s1) \<Rightarrow>
          (case query e SelectOk s1 of
             (Inl err, s2) \<Rightarrow> ((500, Health ''error'' False), s2)
           | (Inr res, s2) \<Rightarrow>
               (let s3 = release s2
                in case res of
                     OkRows (ok # rest) \<Rightarrow> ((200, Health ''ok'' (ok = 1)), s3)
                   | _ \<Rightarrow> ((500, Health ''error'' False), s3))))"

definition list_rows :: "env \<Rightarrow> stmt \<Rightarrow> server \<Rightarrow> response \<times> server" where
  \<comment> \<open>the common body of the three list handlers\<close>
  "list_rows e q s =
     (case getConnection e s of
        (Inl err, s1) \<Rightarrow> ((500, DbError err), s1)
      | (Inr c, s1) \<Rightarrow>
          (case query e q s1 of
             (Inl err, s2) \<Rightarrow> ((500, DbError err), s2)
           | (Inr rows, s2) \<Rightarrow> ((200, Json rows), release s2)))"

definition get_customers :: "env \<Rightarrow> server \<Rightarrow> response \<times> server" where
  "get_customers e s = list_rows e SelectCustomers s"

definition get_orders :: "env \<Rightarrow> server \<Rightarrow> response \<times> server" where
  "get_orders e s = list_rows e SelectOrders s"

definition get_products :: "env \<Rightarrow> server \<Rightarrow> response \<times> server" where
  "get_products e s = list_rows e SelectFoods s"

definition city_or_null :: "unicode \<Rightarrow> ustring option \<Rightarrow> ustring option" where
  \<comment> \<open>\<open>req.body.cust_city ? titleCase(req.body.cust_city) : null\<close>: an absent field and the
      empty string are both falsy\<close>
  "city_or_null U v =
     (case v of None \<Rightarrow> None | Some c \<Rightarrow> if c = [] then None else Some (titleCase U c))"

text \<open>
  Create and replace require a name, so a request without a body fails their
  validation, and their reads of \<open>req.body\<close> after it see an object.
\<close>

definition post_customers ::
  "unicode \<Rightarrow> env \<Rightarrow> req_body option \<Rightarrow> server \<Rightarrow> response \<times> server" where
  "post_customers U e b s =
     (let code = trim (field_value (body_field b cust_code));
          name = trim (field_value (body_field b cust_name));
          city = map_option (\<lambda>c. escape (trim c)) (body_field b cust_city);
          errors = (if length code < 1 then [''cust_code''] else []) @
                   (if length name < 1 then [''cust_name''] else [])
      in if errors \<noteq> [] then ((400, ValidationErrors errors), s)
         else
           (let payload = \<lparr>c_code = trim code, c_name = titleCase U name,
                           c_city = city_or_null U city\<rparr>
            in case getConnection e s of
                 (Inl err, s1) \<Rightarrow> ((500, DbError err), s1)
               | (Inr c, s1) \<Rightarrow>
                   (case query e (Insert (c_code payload) (c_name payload) (c_city payload)) s1 of
                      (Inl err, s2) \<Rightarrow> ((500, DbError err), s2)
                    | (Inr res, s2) \<Rightarrow>
                        ((201, Created ''Customer created'' payload), release s2))))"

definition patch_fields :: "unicode \<Rightarrow> ustring option \<Rightarrow> ustring option \<Rightarrow> assignment list" where
  \<comment> \<open>the two conditional pushes onto \<open>fields\<close> and \<open>params\<close>\<close>
  "patch_fields U name city =
     (case name of None \<Rightarrow> [] | Some n \<Rightarrow> [SetName (titleCase U n)]) @
     (case city of None \<Rightarrow> [] | Some c \<Rightarrow> [SetCity (Some (titleCase U c))])"

text \<open>
  The validators of a partial update pass a request without a body (both fields are
  optional); the handler then reads \<open>req.body.cust_name\<close> inside its \<open>try\<close>, which throws
  a \<open>TypeError\<close> that the \<open>catch\<close> answers with 500.
\<close>

definition patch_customer ::
  "unicode \<Rightarrow> env \<Rightarrow> request \<Rightarrow> server \<Rightarrow> response \<times> server" where
  "patch_customer U e r s =
     (let id = trim (params_id r);
          errors = (if id = [] then [''id''] else [])
      in if errors \<noteq> [] then ((400, ValidationErrors errors), s)
         else
           (case body r of
              None \<Rightarrow> ((500, Error ''Cannot read properties of undefined''), s)
            | Some b \<Rightarrow>
                (let name = map_option trim (cust_name b);
                     city = map_option trim (cust_city b);
                     fields = patch_fields U name city
                 in if length fields = 0 then ((400, Error ''No updatable fields''), s)
                    else
                      (case getConnection e s of
                         (Inl err, s1) \<Rightarrow> ((500, DbError err), s1)
                       | (Inr c, s1) \<Rightarrow>
                           (case query e (Update fields id) s1 of
                              (Inl err, s2) \<Rightarrow> ((500, DbError err), s2)
                            | (Inr res, s2) \<Rightarrow>
                                (let s3 = release s2
                                 in if affectedRows res = 0
                                    then ((404, Error ''Customer not found''), s3)
                                    else ((200, Message ''Customer updated''), s3)))))))"

definition put_customer ::
  "unicode \<Rightarrow> env \<Rightarrow> request \<Rightarrow> server \<Rightarrow> response \<times> server" where
  "put_customer U e r s =
     (let id = trim (params_id r);
          name = trim (field_value (body_field (body r) cust_name));
          city = map_option trim (body_field (body r) cust_city);
          errors = (if id = [] then [''id''] else []) @
                   (if name = [] then [''cust_name''] else [])
      in if errors \<noteq> [] then ((400, ValidationErrors errors), s)
         else
           (case getConnection e s of
              (Inl err, s1) \<Rightarrow> ((500, DbError err), s1)
            | (Inr c, s1) \<Rightarrow>
                (case query e (Update [SetName (titleCase U name),
                                       SetCity (city_or_null U city)] id) s1 of
                   (Inl err, s2) \<Rightarrow> ((500, DbError err), s2)
                 | (Inr res, s2) \<Rightarrow>
                     (let s3 = release s2
                      in if affectedRows res = 0
                         then ((404, Error ''Customer not found''), s3)
                         else ((200, Message ''Customer replaced''), s3)))))"

definition delete_customer :: "env \<Rightarrow> request \<Rightarrow> server \<Rightarrow> response \<times> server" where
  "delete_customer e r s =
     (let id = trim (params_id r);
          errors = (if id = [] then [''id''] else [])
      in if errors \<noteq> [] then ((400, ValidationErrors errors), s)
         else
           (case getConnection e s of
              (Inl err, s1) \<Rightarrow> ((500, DbError err), s1)
            | (Inr c, s1) \<Rightarrow>
                (case query e (Delete id) s1 of
                   (Inl err, s2) \<Rightarrow> ((500, DbError err), s2)
                 | (Inr res, s2) \<Rightarrow>
                     (let s3 = release s2
                      in if affectedRows res = 0
                         then ((404, Error ''Customer not found''), s3)
                         else ((200, Message ''Customer deleted''), s3)))))"

text \<open>
  The specification's reading of a partial update: the columns named by the fields
  that the body supplies, of the two fields that a partial update accepts.
\<close>

fun column :: "assignment \<Rightarrow> string" where
  "column (SetName n) = ''cust_name''"
| "column (SetCity c) = ''cust_city''"

definition supplied :: "req_body option \<Rightarrow> string list" where
  "supplied b =
     (if body_field b cust_name = None then [] else [''cust_name'']) @
     (if body_field b cust_city = None then [] else [''cust_city''])"

section \<open>Example inputs\<close>

text \<open>
  The character database below U+0100: the capitals \<open>A\<close> to \<open>Z\<close> and U+00C0 to U+00DE
  (without the multiplication sign U+00D7) have the code point 32 above as lowercase;
  the uppercase of U+00B5 is U+039C, of U+00DF the two letters \<open>SS\<close>, of U+00FF U+0178.
  Above U+00FF the example leaves every code point as it is.
\<close>

definition latin1 :: unicode where
  "latin1 =
     \<lparr>lc = (\<lambda>c. [if is_upper c \<or> (192 \<le> c \<and> c \<le> 222 \<and> c \<noteq> 215) then c + 32 else c]),
      uc = (\<lambda>c. if c = 181 then [924] else if c = 223 then [83, 83] else if c = 255 then [376]
                 else [if is_lower c \<or> (224 \<le> c \<and> c \<le> 254 \<and> c \<noteq> 247) then c - 32 else c]),
      final_sigma = (\<lambda>left right. False)\<rparr>"

definition example_server :: server where
  "example_server =
     \<lparr>customers = [\<lparr>c_code = js ''c1'', c_name = js ''Jane Doe'', c_city = Some (js ''New York'')\<rparr>],
      orders = [], foods = [], in_use = 0, trace = []\<rparr>"

definition no_fault :: env where
  "no_fault = \<lparr>conn_fault = False, query_fault = False\<rparr>"

definition duplicate_create :: "server \<Rightarrow> response \<times> server" where
  \<comment> \<open>\<open>POST /customers\<close> with a code that the example server already holds\<close>
  "duplicate_create s =
     post_customers latin1 no_fault
       (Some \<lparr>cust_code = Some (js ''c1''), cust_name = Some (js ''jane doe''),
              cust_city = Some (js ''new york'')\<rparr>) s"

section \<open>Properties of the normalization\<close>

lemma to_lower_to_upper: "is_lower c \<Longrightarrow> to_lower (to_upper c) = c"
  by (auto simp: to_lower_def to_upper_def is_lower_def is_upper_def)

lemma upper_not_sigma: "is_lower c \<Longrightarrow> to_upper c \<noteq> 931 \<and> to_upper c < 128"
  by (auto simp: to_upper_def is_lower_def)

lemma is_space_to_upper: "is_space (to_upper c) = is_space c"
  by (auto simp: to_upper_def is_lower_def is_space_def)


subsection \<open>Trimming\<close>

lemma trim_Nil: "trim [] = []"
  by (simp add: trim_def)

lemma trim_fixed: "s = [] \<or> (\<not> is_space (hd s) \<and> \<not> is_space (last s)) \<Longrightarrow> trim s = s"
proof (cases "s = []")
  case True
  then show ?thesis by (simp add: trim_def)
next
  case False
  assume "s = [] \<or> (\<not> is_space (hd s) \<and> \<not> is_space (last s))"
  with False have h: "\<not> is_space (hd s)" and l: "\<not> is_space (last s)" by simp_all
  from False h have 1: "dropWhile is_space s = s" by (cases s) simp_all
  from False l have "\<not> is_space (hd (rev s))" by (simp add: hd_rev)
  with False have 2: "dropWhile is_space (rev s) = rev s" by (cases "rev s") simp_all
  show ?thesis by (simp add: trim_def 1 2)
qed

lemma trim_ends: "trim s \<noteq> [] \<Longrightarrow> \<not> is_space (hd (trim s)) \<and> \<not> is_space (last (trim s))"
proof -
  define ys where "ys = dropWhile is_space s"
  define zs where "zs = dropWhile is_space (rev ys)"
  assume "trim s \<noteq> []"
  then have zs: "zs \<noteq> []" by (simp add: trim_def zs_def ys_def)
  then have ys: "ys \<noteq> []" by (auto simp: zs_def)
  have t: "trim s = rev zs" by (simp add: trim_def zs_def ys_def)
  have "\<not> is_space (hd zs)" using zs unfolding zs_def by (rule hd_dropWhile)
  then have l: "\<not> is_space (last (rev zs))" using zs by (simp add: last_rev)
  have "rev ys = takeWhile is_space (rev ys) @ zs" by (simp add: zs_def)
  then have "last (rev ys) = last zs" using zs by (metis last_appendR)
  then have "last zs = hd ys" using ys by (simp add: last_rev)
  moreover have "\<not> is_space (hd ys)" using ys unfolding ys_def by (rule hd_dropWhile)
  ultimately have "\<not> is_space (hd (rev zs))" using zs by (simp add: hd_rev)
  with l t show ?thesis by simp
qed

lemma trim_trim: "trim (trim s) = trim s"
  using trim_ends [of s] by (intro trim_fixed) blast

lemma set_trim: "set (trim s) \<subseteq> set s"
proof -
  have "set (trim s) \<subseteq> set (dropWhile is_space s)"
    unfolding trim_def set_rev using set_dropWhileD by fastforce
  also have "\<dots> \<subseteq> set s" using set_dropWhileD by fastforce
  finally show ?thesis .
qed

subsection \<open>Lowercasing keeps the ends and is undone by no capital of the replacement\<close>

lemma lower_at_props:
  assumes "lowercase_stable U"
  shows "lower_at U left c right \<noteq> [] \<and>
         (\<forall>d \<in> set (lower_at U left c right).
            d \<noteq> 931 \<and> lc U d = [d] \<and> is_space d = is_space c)"
proof (cases "c = 931")
  case True
  have sp: "\<not> is_space 931" "\<not> is_space 962" "\<not> is_space 963"
    by (simp_all add: is_space_def)
  from assms have "lc U 962 = [962]" and "lc U 963 = [963]"
    unfolding lowercase_stable_def by blast+
  with True sp show ?thesis unfolding lower_at_def by simp
next
  case False
  with assms have "lc U c \<noteq> [] \<and>
      (\<forall>d \<in> set (lc U c). d \<noteq> 931 \<and> lc U d = [d] \<and> is_space d = is_space c)"
    unfolding lowercase_stable_def by blast
  with False show ?thesis unfolding lower_at_def by simp
qed

lemma lower_from_Nil: "lowercase_stable U \<Longrightarrow> lower_from U left s = [] \<longleftrightarrow> s = []"
  using lower_at_props [of U] by (cases s) simp_all

lemma lower_from_stable:
  assumes "lowercase_stable U"
  shows "\<forall>d \<in> set (lower_from U left s). d \<noteq> 931 \<and> lc U d = [d]"
proof (induction s arbitrary: left)
  case Nil
  show ?case by simp
next
  case (Cons c cs)
  have "\<forall>d \<in> set (lower_at U left c cs). d \<noteq> 931 \<and> lc U d = [d]"
    using lower_at_props [OF assms, of left c cs] by blast
  with Cons [of "c # left"] show ?case by auto
qed

lemma space_hd_lower_from:
  assumes "lowercase_stable U" and "s \<noteq> []"
  shows "is_space (hd (lower_from U left s)) = is_space (hd s)"
proof -
  from assms(2) obtain c cs where s: "s = c # cs" by (cases s) auto
  from lower_at_props [OF assms(1), of left c cs]
  have "lower_at U left c cs \<noteq> []"
    and "is_space (hd (lower_at U left c cs)) = is_space c" by auto
  then show ?thesis by (simp add: s)
qed

lemma space_last_lower_from:
  assumes "lowercase_stable U"
  shows "s \<noteq> [] \<Longrightarrow> is_space (last (lower_from U left s)) = is_space (last s)"
proof (induction s arbitrary: left)
  case Nil
  then show ?case by simp
next
  case (Cons c cs)
  from lower_at_props [OF assms, of left c cs]
  have ne: "lower_at U left c cs \<noteq> []"
    and l: "is_space (last (lower_at U left c cs)) = is_space c" by auto
  show ?case
  proof (cases "cs = []")
    case True
    with ne l show ?thesis by simp
  next
    case False
    then have "lower_from U (c # left) cs \<noteq> []"
      using lower_from_Nil [OF assms] by simp
    with False Cons.IH [OF False, of "c # left"] show ?thesis by simp
  qed
qed

lemma lower_from_replace_boundary:
  assumes "lc_ascii U"
  shows "\<forall>d \<in> set u. d \<noteq> 931 \<and> lc U d = [d] \<Longrightarrow>
         lower_from U left (replace_boundary p u) = u"
proof (induction u arbitrary: left p)
  case Nil
  then show ?case by simp
next
  case (Cons c cs)
  then have c: "c \<noteq> 931" "lc U c = [c]" by simp_all
  have "lower_at U left (if \<not> p \<and> is_lower c then to_upper c else c) (replace_boundary (is_word c) cs) = [c]"
  proof (cases "\<not> p \<and> is_lower c")
    case True
    then have l: "is_lower c" by simp
    from assms upper_not_sigma [OF l] have "lc U (to_upper c) = [to_lower (to_upper c)]"
      by (simp add: lc_ascii_def)
    with True upper_not_sigma [OF l] show ?thesis
      by (simp add: lower_at_def to_lower_to_upper [OF l])
  next
    case False
    with c show ?thesis by (auto simp: lower_at_def)
  qed
  with Cons show ?case by simp
qed

subsection \<open>The replacement keeps the shape of the string\<close>

lemma replace_boundary_Nil: "replace_boundary p s = [] \<longleftrightarrow> s = []"
  by (cases s) simp_all

lemma space_hd_replace_boundary:
  "s \<noteq> [] \<Longrightarrow> is_space (hd (replace_boundary p s)) = is_space (hd s)"
  by (cases s) (simp_all add: is_space_to_upper)

lemma space_last_replace_boundary:
  "s \<noteq> [] \<Longrightarrow> is_space (last (replace_boundary p s)) = is_space (last s)"
  by (induction s arbitrary: p) (simp_all add: is_space_to_upper replace_boundary_Nil)

lemma titleCase_Nil: "titleCase U [] = []"
  by (simp add: titleCase_def toLowerCase_def trim_def)

lemma trim_titleCase:
  assumes "lowercase_stable U"
  shows "trim (titleCase U s) = titleCase U s"
proof (cases "trim s = []")
  case True
  then have "titleCase U s = []" by (simp add: titleCase_def toLowerCase_def)
  then show ?thesis by (simp add: trim_def)
next
  case False
  then have l: "toLowerCase U (trim s) \<noteq> []"
    using lower_from_Nil [OF assms] by (simp add: toLowerCase_def)
  from False have "\<not> is_space (hd (trim s))" and "\<not> is_space (last (trim s))"
    using trim_ends [of s] by simp_all
  then have "\<not> is_space (hd (titleCase U s))" and "\<not> is_space (last (titleCase U s))"
    using False l space_hd_lower_from [OF assms False] space_last_lower_from [OF assms False]
    by (simp_all add: titleCase_def toLowerCase_def space_hd_replace_boundary
        space_last_replace_boundary)
  then show ?thesis by (intro trim_fixed) simp
qed

subsection \<open>Agreement with the specification's transform\<close>


text \<open>
  On ASCII strings the result does not depend on the rest of the character database.
\<close>

lemma lower_from_ascii:
  "lc_ascii U \<Longrightarrow> \<forall>c \<in> set s. c < 128 \<Longrightarrow> lower_from U left s = map to_lower s"
  by (induction s arbitrary: left) (simp_all add: lower_at_def lc_ascii_def)

lemma titleCase_ascii:
  assumes "lc_ascii U" and "lc_ascii V" and "\<forall>c \<in> set s. c < 128"
  shows "titleCase U s = titleCase V s"
proof -
  from assms(3) set_trim [of s] have "\<forall>c \<in> set (trim s). c < 128" by blast
  with assms(1,2) show ?thesis
    by (simp add: titleCase_def toLowerCase_def lower_from_ascii)
qed

lemma lc_ascii_latin1: "lc_ascii latin1"
  by (auto simp: lc_ascii_def latin1_def to_lower_def is_upper_def)

lemma uc_ascii_latin1: "uc_ascii latin1"
  by (auto simp: uc_ascii_def latin1_def to_upper_def is_lower_def)

lemma lowercase_stable_latin1: "lowercase_stable latin1"
  unfolding lowercase_stable_def latin1_def
  by (auto simp: is_upper_def is_space_def)

section \<open>Claims about the normalization\<close>




text \<open>
  C7: the normalization is idempotent, \<open>titleCase (titleCase s) = titleCase s\<close> for every
  string \<open>s\<close>, whatever the character database, as long as it has the ASCII letters
  and its lowercase mappings are stable.
\<close>

theorem titleCase_idempotent:
  assumes "lc_ascii U" and "lowercase_stable U"
  shows "titleCase U (titleCase U s) = titleCase U s"
proof -
  have "toLowerCase U (trim (titleCase U s)) = toLowerCase U (titleCase U s)"
    by (simp add: trim_titleCase [OF assms(2)])
  also have "\<dots> = toLowerCase U (trim s)"
    unfolding titleCase_def toLowerCase_def
    using lower_from_stable [OF assms(2), of "[]" "trim s"]
    by (rule lower_from_replace_boundary [OF assms(1)])
  finally show ?thesis by (simp add: titleCase_def)
qed

text \<open>
  C7 at a string with a no-break space, an accented capital and a hyphen.
\<close>

theorem titleCase_idempotent_witness:
  "titleCase latin1 [160, 201, 67, 79, 76, 69, 45, 97, 32] = [233, 67, 111, 108, 101, 45, 65] \<and>
   titleCase latin1 (titleCase latin1 [160, 201, 67, 79, 76, 69, 45, 97, 32]) =
     titleCase latin1 [160, 201, 67, 79, 76, 69, 45, 97, 32]"
proof -
  have "titleCase latin1 [160, 201, 67, 79, 76, 69, 45, 97, 32] =
          [233, 67, 111, 108, 101, 45, 65]" by code_simp
  with titleCase_idempotent [OF lc_ascii_latin1 lowercase_stable_latin1,
      of "[160, 201, 67, 79, 76, 69, 45, 97, 32]"]
  show ?thesis by simp
qed

section \<open>Properties of the store and of the handlers\<close>

lemmas handler_defs =
  getConnection_def query_def release_def affectedRows_def events_of_def status_def Let_def

lemma escape_Nil: "escape [] = []"
  by (simp add: escape_def)

lemma matching_0: "matching k rows = 0 \<longleftrightarrow> (\<forall>r \<in> set rows. c_code r \<noteq> k)"
  by (simp add: matching_def filter_empty_conv)

lemma update_no_match: "matching k rows = 0 \<Longrightarrow> map (apply_update as k) rows = rows"
  by (simp add: matching_0 apply_update_def map_idI)

lemma delete_no_match: "matching k rows = 0 \<Longrightarrow> filter (\<lambda>r. c_code r \<noteq> k) rows = rows"
  by (simp add: matching_0)

lemma c_code_assign: "c_code (fold assign as r) = c_code r"
proof (induction as arbitrary: r)
  case Nil
  show ?case by simp
next
  case (Cons a as)
  then show ?case by (cases a) simp_all
qed

lemma c_code_update: "c_code (apply_update as k row) = c_code row"
  by (simp add: apply_update_def c_code_assign)

lemma matching_update: "matching k (map (apply_update as k') rows) = matching k rows"
proof -
  have "filter (\<lambda>r. c_code r = k) (map (apply_update as k') rows) =
        map (apply_update as k') (filter (\<lambda>r. c_code r = k) rows)"
    by (simp add: filter_map o_def c_code_update)
  then show ?thesis by (simp add: matching_def)
qed

lemma c_name_update_city: "c_name (apply_update (patch_fields U None c) k row) = c_name row"
  by (cases c) (simp_all add: patch_fields_def apply_update_def)

lemma run_stmt_pool: "run_stmt q s = Inr (res, s') \<Longrightarrow> in_use s' = in_use s"
  by (cases q) (auto split: if_splits)

lemma column_patch_fields:
  "map column (patch_fields U (map_option f (cust_name b)) (map_option g (cust_city b))) =
   supplied (Some b)"
  by (cases "cust_name b"; cases "cust_city b")
     (simp_all add: patch_fields_def supplied_def body_field_def)

lemma patch_fields_Nil:
  "patch_fields U (map_option f (cust_name b)) (map_option g (cust_city b)) = [] \<longleftrightarrow>
   supplied (Some b) = []"
  by (cases "cust_name b"; cases "cust_city b")
     (simp_all add: patch_fields_def supplied_def body_field_def)

lemma supplied_None: "supplied None = []"
  by (simp add: supplied_def body_field_def)

lemma patch_events:
  "events_of s (snd (patch_customer U e r s)) = [] \<or>
   events_of s (snd (patch_customer U e r s)) = [AcquireFailed] \<or>
   (\<exists>b. body r = Some b \<and>
      (events_of s (snd (patch_customer U e r s)) =
         [Acquire, Query (Update (patch_fields U (map_option trim (cust_name b))
                                    (map_option trim (cust_city b)))
                           (trim (params_id r)))] \<or>
       events_of s (snd (patch_customer U e r s)) =
         [Acquire, Query (Update (patch_fields U (map_option trim (cust_name b))
                                    (map_option trim (cust_city b)))
                           (trim (params_id r))), Release]))"
  by (cases "body r") (simp_all add: patch_customer_def handler_defs)

lemma patch_customers:
  "customers (snd (patch_customer U e r s)) = customers s \<or>
   (\<exists>b. body r = Some b \<and>
      customers (snd (patch_customer U e r s)) =
        map (apply_update (patch_fields U (map_option trim (cust_name b))
                             (map_option trim (cust_city b)))
               (trim (params_id r))) (customers s))"
  by (cases "body r") (simp_all add: patch_customer_def handler_defs)

text \<open>
  A partial update whose body is an object without \<open>cust_name\<close> and \<open>cust_city\<close> is
  answered 400 and touches nothing: no connection is obtained and no statement is run.
\<close>

lemma patch_no_fields:
  "body r = Some b \<Longrightarrow> cust_name b = None \<Longrightarrow> cust_city b = None \<Longrightarrow>
   status (patch_customer U e r s) = 400 \<and> snd (patch_customer U e r s) = s"
  by (simp add: patch_customer_def patch_fields_def status_def Let_def)

text \<open>
  No partial update without the two fields, with or without a body, touches the pool
  or the store.
\<close>

lemma patch_nothing_supplied_untouched:
  "supplied (body r) = [] \<Longrightarrow> snd (patch_customer U e r s) = s"
  by (cases "body r")
     (simp_all add: patch_customer_def Let_def patch_fields_Nil)

text \<open>
  Create and replace reject a name that trims to the empty string, and a request
  without a body, before they touch the pool or the store.
\<close>

lemma blank_name_rejected:
  assumes "trim (field_value (body_field b cust_name)) = []" and "body r = b"
  shows "status (post_customers U e b s) = 400 \<and> snd (post_customers U e b s) = s \<and>
         status (put_customer U e r s) = 400 \<and> snd (put_customer U e r s) = s"
  using assms by (simp add: post_customers_def put_customer_def status_def Let_def)

text \<open>
  Every handler gives the connection back unless it answers 500; when the statement
  fails after a connection was obtained, the connection stays in use.
\<close>

lemma released_unless_500:
  "status (get_health e s) \<noteq> 500 \<Longrightarrow> in_use (snd (get_health e s)) = in_use s"
  "status (list_rows e q s) \<noteq> 500 \<Longrightarrow> in_use (snd (list_rows e q s)) = in_use s"
  "status (post_customers U e b s) \<noteq> 500 \<Longrightarrow> in_use (snd (post_customers U e b s)) = in_use s"
  "status (patch_customer U e r s) \<noteq> 500 \<Longrightarrow> in_use (snd (patch_customer U e r s)) = in_use s"
  "status (put_customer U e r s) \<noteq> 500 \<Longrightarrow> in_use (snd (put_customer U e r s)) = in_use s"
  "status (delete_customer e r s) \<noteq> 500 \<Longrightarrow> in_use (snd (delete_customer e r s)) = in_use s"
  by (auto simp: get_health_def list_rows_def post_customers_def patch_customer_def
      put_customer_def delete_customer_def handler_defs
      dest: run_stmt_pool
      split: if_splits prod.splits sum.splits qresult.splits list.splits option.splits)

lemma kept_when_query_fails:
  assumes "\<not> conn_fault e" and "in_use s < connectionLimit" and "query_fault e"
  shows "in_use (snd (get_health e s)) = Suc (in_use s)"
    and "in_use (snd (list_rows e q s)) = Suc (in_use s)"
    and "status (post_customers U e b s) \<noteq> 400 \<Longrightarrow>
         in_use (snd (post_customers U e b s)) = Suc (in_use s)"
    and "status (patch_customer U e r s) = 500 \<Longrightarrow> body r \<noteq> None \<Longrightarrow>
         in_use (snd (patch_customer U e r s)) = Suc (in_use s)"
    and "status (put_customer U e r s) \<noteq> 400 \<Longrightarrow>
         in_use (snd (put_customer U e r s)) = Suc (in_use s)"
    and "status (delete_customer e r s) \<noteq> 400 \<Longrightarrow>
         in_use (snd (delete_customer e r s)) = Suc (in_use s)"
  using assms
  by (auto simp: get_health_def list_rows_def post_customers_def patch_customer_def
      put_customer_def delete_customer_def handler_defs split: if_splits)

section \<open>Claims about the handlers\<close>

text \<open>
  C1: every endpoint that obtains a connection releases it before it responds, also
  when the store operation throws. The code at a create whose code exists already: the
  insert throws, the handler answers 500, and the trace ends with the statement, with
  no release; the connection stays in use. After five such requests the pool is
  exhausted and the health check answers 500.
\<close>

theorem connection_kept_when_query_throws:
  "fst (duplicate_create example_server) = (500, DbError DuplicateKey) \<and>
   events_of example_server (snd (duplicate_create example_server)) =
     [Acquire, Query (Insert (js ''c1'') (js ''Jane Doe'') (Some (js ''New York'')))] \<and>
   in_use example_server = 0 \<and>
   in_use (snd (duplicate_create example_server)) = 1 \<and>
   fst (get_health no_fault (((\<lambda>s. snd (duplicate_create s)) ^^ 5) example_server)) =
     (500, Health ''error'' False)"
  by code_simp

text \<open>
  C2: the update statement of a partial update names exactly the fields that the body
  supplies, and a partial update that does not supply \<open>cust_name\<close> leaves every stored
  name (and code) as it was.
\<close>

theorem patch_only_supplied:
  "(\<forall>q. Query q \<in> set (events_of s (snd (patch_customer U e r s))) \<longrightarrow>
        (\<exists>as. q = Update as (trim (params_id r)) \<and> map column as = supplied (body r))) \<and>
   (body_field (body r) cust_name = None \<longrightarrow>
      map c_name (customers (snd (patch_customer U e r s))) = map c_name (customers s) \<and>
      map c_code (customers (snd (patch_customer U e r s))) = map c_code (customers s))"
proof (intro conjI allI impI)
  fix q assume "Query q \<in> set (events_of s (snd (patch_customer U e r s)))"
  with patch_events [of s U e r]
  obtain b where b: "body r = Some b"
    and "q = Update (patch_fields U (map_option trim (cust_name b))
                       (map_option trim (cust_city b))) (trim (params_id r))"
    by auto
  then show "\<exists>as. q = Update as (trim (params_id r)) \<and> map column as = supplied (body r)"
    by (simp add: column_patch_fields)
next
  assume "body_field (body r) cust_name = None"
  with patch_customers [of U e r s]
  show "map c_name (customers (snd (patch_customer U e r s))) = map c_name (customers s)"
    by (auto simp: c_name_update_city body_field_def)
next
  from patch_customers [of U e r s]
  show "map c_code (customers (snd (patch_customer U e r s))) = map c_code (customers s)"
    by (auto simp: c_code_update)
qed

text \<open>
  C2 at \<open>PATCH /customers/c1\<close> with the body \<open>{cust_city: "boston"}\<close>: one statement,
  which sets the city only; the name stays.
\<close>

theorem patch_only_supplied_witness:
  "events_of example_server
     (snd (patch_customer latin1 no_fault
        \<lparr>params_id = js ''c1'',
         body = Some \<lparr>cust_code = None, cust_name = None, cust_city = Some (js ''boston'')\<rparr>\<rparr>
        example_server)) =
     [Acquire, Query (Update [SetCity (Some (js ''Boston''))] (js ''c1'')), Release] \<and>
   (\<exists>as. Update [SetCity (Some (js ''Boston''))] (js ''c1'') = Update as (js ''c1'') \<and>
          map column as = [''cust_city'']) \<and>
   customers (snd (patch_customer latin1 no_fault
        \<lparr>params_id = js ''c1'',
         body = Some \<lparr>cust_code = None, cust_name = None, cust_city = Some (js ''boston'')\<rparr>\<rparr>
        example_server)) =
     [\<lparr>c_code = js ''c1'', c_name = js ''Jane Doe'', c_city = Some (js ''Boston'')\<rparr>] \<and>
   map c_name (customers (snd (patch_customer latin1 no_fault
        \<lparr>params_id = js ''c1'',
         body = Some \<lparr>cust_code = None, cust_name = None, cust_city = Some (js ''boston'')\<rparr>\<rparr>
        example_server))) = map c_name (customers example_server)"
proof -
  let ?r = "\<lparr>params_id = js ''c1'',
             body = Some \<lparr>cust_code = None, cust_name = None,
                          cust_city = Some (js ''boston'')\<rparr>\<rparr>"
  have h: "body_field (body ?r) cust_name = None" by (simp add: body_field_def)
  have 1: "events_of example_server (snd (patch_customer latin1 no_fault ?r example_server)) =
     [Acquire, Query (Update [SetCity (Some (js ''Boston''))] (js ''c1'')), Release]"
    by code_simp
  then have m: "Query (Update [SetCity (Some (js ''Boston''))] (js ''c1'')) \<in>
     set (events_of example_server (snd (patch_customer latin1 no_fault ?r example_server)))"
    by simp
  have t: "trim (params_id ?r) = js ''c1''" by code_simp
  have u: "supplied (body ?r) = [''cust_city'']" by code_simp
  from patch_only_supplied [of example_server latin1 no_fault ?r,
      THEN conjunct1, THEN spec, THEN mp, OF m]
  have 2: "\<exists>as. Update [SetCity (Some (js ''Boston''))] (js ''c1'') = Update as (js ''c1'') \<and>
          map column as = [''cust_city'']" unfolding t u .
  have 3: "customers (snd (patch_customer latin1 no_fault ?r example_server)) =
     [\<lparr>c_code = js ''c1'', c_name = js ''Jane Doe'', c_city = Some (js ''Boston'')\<rparr>]"
    by code_simp
  from patch_only_supplied [of example_server latin1 no_fault ?r,
      THEN conjunct2, THEN mp, OF h]
  have 4: "map c_name (customers (snd (patch_customer latin1 no_fault ?r example_server))) =
     map c_name (customers example_server)" by (rule conjunct1)
  from 1 2 3 4 show ?thesis by (intro conjI)
qed

text \<open>
  C3: every replace that supplies \<open>cust_name\<close> and omits \<open>cust_city\<close>, addressed at an
  existing row, sets the stored city of that row to null. The replace is one that the
  validation lets through (an id and a name that are not empty after trimming), and
  its connection and statement succeed; it is answered 200.
\<close>

theorem put_clears_city:
  assumes "body r = Some b"
    and "cust_name b = Some n" and "trim n \<noteq> []"
    and "cust_city b = None"
    and "trim (params_id r) \<noteq> []"
    and "matching (trim (params_id r)) (customers s) \<noteq> 0"
    and "\<not> conn_fault e" and "\<not> query_fault e" and "in_use s < connectionLimit"
  shows "status (put_customer U e r s) = 200 \<and>
         matching (trim (params_id r)) (customers (snd (put_customer U e r s))) \<noteq> 0 \<and>
         (\<forall>row \<in> set (customers (snd (put_customer U e r s))).
            c_code row = trim (params_id r) \<longrightarrow> c_city row = None)"
  using assms
  by (simp add: put_customer_def handler_defs city_or_null_def matching_update
      body_field_def field_value_def)
     (simp add: apply_update_def)

text \<open>
  C3 at \<open>PUT /customers/c1\<close> with the body \<open>{cust_name: "jane"}\<close> on a row whose city
  is New York.
\<close>

theorem put_clears_city_witness:
  "status (put_customer latin1 no_fault
      \<lparr>params_id = js ''c1'',
       body = Some \<lparr>cust_code = None, cust_name = Some (js ''jane''), cust_city = None\<rparr>\<rparr>
      example_server) = 200 \<and>
   customers (snd (put_customer latin1 no_fault
      \<lparr>params_id = js ''c1'',
       body = Some \<lparr>cust_code = None, cust_name = Some (js ''jane''), cust_city = None\<rparr>\<rparr>
      example_server)) = [\<lparr>c_code = js ''c1'', c_name = js ''Jane'', c_city = None\<rparr>]"
proof -
  let ?b = "\<lparr>cust_code = None, cust_name = Some (js ''jane''), cust_city = None\<rparr>"
  let ?r = "\<lparr>params_id = js ''c1'', body = Some ?b\<rparr>"
  have 0: "body ?r = Some ?b" and 1: "cust_name ?b = Some (js ''jane'')" by simp_all
  have 2: "trim (js ''jane'') \<noteq> []" by code_simp
  have 3: "cust_city ?b = None" by simp
  have 4: "trim (params_id ?r) \<noteq> []" by code_simp
  have 5: "matching (trim (params_id ?r)) (customers example_server) \<noteq> 0" by code_simp
  have 6: "\<not> conn_fault no_fault" and 7: "\<not> query_fault no_fault"
    by (simp_all add: no_fault_def)
  have 8: "in_use example_server < connectionLimit"
    by (simp add: example_server_def connectionLimit_def)
  have "customers (snd (put_customer latin1 no_fault ?r example_server)) =
          [\<lparr>c_code = js ''c1'', c_name = js ''Jane'', c_city = None\<rparr>]" by code_simp
  with put_clears_city [OF 0 1 2 3 4 5 6 7 8, of latin1] show ?thesis by simp
qed

text \<open>
  C4: a partial update, replace or delete addressed at a code without a row leaves the
  stored state unchanged and is answered 404. The stored state is unchanged in every
  case; the answer is 404 for a request that the validation lets through (an id that is
  not empty after trimming; for a partial update at least one supplied field; for a
  replace a name that is not empty after trimming) and whose connection and statement
  succeed.
\<close>

theorem missing_row_not_found:
  assumes "matching (trim (params_id r)) (customers s) = 0"
  shows "stored (snd (patch_customer U e r s)) = stored s \<and>
         stored (snd (put_customer U e r s)) = stored s \<and>
         stored (snd (delete_customer e r s)) = stored s \<and>
         (trim (params_id r) \<noteq> [] \<and> \<not> conn_fault e \<and> \<not> query_fault e \<and>
          in_use s < connectionLimit \<longrightarrow>
            (supplied (body r) \<noteq> [] \<longrightarrow> status (patch_customer U e r s) = 404) \<and>
            (trim (field_value (body_field (body r) cust_name)) \<noteq> [] \<longrightarrow>
               status (put_customer U e r s) = 404) \<and>
            status (delete_customer e r s) = 404)"
proof (intro conjI impI)
  show "stored (snd (patch_customer U e r s)) = stored s"
    using assms
    by (cases "body r")
       (simp_all add: patch_customer_def handler_defs stored_def update_no_match)
  show "stored (snd (put_customer U e r s)) = stored s"
    using assms by (simp add: put_customer_def handler_defs stored_def update_no_match)
  show "stored (snd (delete_customer e r s)) = stored s"
    using assms by (simp add: delete_customer_def handler_defs stored_def delete_no_match)
next
  assume "trim (params_id r) \<noteq> [] \<and> \<not> conn_fault e \<and> \<not> query_fault e \<and>
          in_use s < connectionLimit"
    and "supplied (body r) \<noteq> []"
  then show "status (patch_customer U e r s) = 404"
    using assms
    by (cases "body r")
       (simp_all add: patch_customer_def handler_defs patch_fields_Nil supplied_None)
next
  assume "trim (params_id r) \<noteq> [] \<and> \<not> conn_fault e \<and> \<not> query_fault e \<and>
          in_use s < connectionLimit"
    and "trim (field_value (body_field (body r) cust_name)) \<noteq> []"
  then show "status (put_customer U e r s) = 404"
    using assms by (simp add: put_customer_def handler_defs)
next
  assume "trim (params_id r) \<noteq> [] \<and> \<not> conn_fault e \<and> \<not> query_fault e \<and>
          in_use s < connectionLimit"
  then show "status (delete_customer e r s) = 404"
    using assms by (simp add: delete_customer_def handler_defs)
qed

text \<open>
  C4 at the code \<open>zz\<close>, which the example server does not hold.
\<close>

theorem missing_row_not_found_witness:
  "stored (snd (patch_customer latin1 no_fault
      \<lparr>params_id = js ''zz'',
       body = Some \<lparr>cust_code = None, cust_name = Some (js ''jane''), cust_city = None\<rparr>\<rparr>
      example_server)) = stored example_server \<and>
   status (patch_customer latin1 no_fault
      \<lparr>params_id = js ''zz'',
       body = Some \<lparr>cust_code = None, cust_name = Some (js ''jane''), cust_city = None\<rparr>\<rparr>
      example_server) = 404 \<and>
   status (put_customer latin1 no_fault
      \<lparr>params_id = js ''zz'',
       body = Some \<lparr>cust_code = None, cust_name = Some (js ''jane''), cust_city = None\<rparr>\<rparr>
      example_server) = 404 \<and>
   status (delete_customer no_fault
      \<lparr>params_id = js ''zz'',
       body = Some \<lparr>cust_code = None, cust_name = Some (js ''jane''), cust_city = None\<rparr>\<rparr>
      example_server) = 404"
proof -
  let ?r = "\<lparr>params_id = js ''zz'',
             body = Some \<lparr>cust_code = None, cust_name = Some (js ''jane''),
                          cust_city = None\<rparr>\<rparr>"
  have 1: "matching (trim (params_id ?r)) (customers example_server) = 0" by code_simp
  have 2: "trim (params_id ?r) \<noteq> [] \<and> \<not> conn_fault no_fault \<and> \<not> query_fault no_fault \<and>
           in_use example_server < connectionLimit" by code_simp
  have 3: "supplied (body ?r) \<noteq> []" by code_simp
  have 4: "trim (field_value (body_field (body ?r) cust_name)) \<noteq> []" by code_simp
  from missing_row_not_found [OF 1, of latin1 no_fault] 2 3 4 show ?thesis by blast
qed

text \<open>
  C5: a partial update that supplies neither \<open>cust_name\<close> nor \<open>cust_city\<close> is answered
  400 and touches nothing. The code at a request without a body, which supplies
  neither: the validators let it through, the handler's read of \<open>req.body.cust_name\<close>
  throws, and the answer is 500; nothing is touched. Create and replace answer 400 to
  the same request.
\<close>

theorem patch_without_body:
  "fst (patch_customer latin1 no_fault \<lparr>params_id = js ''c1'', body = None\<rparr> example_server) =
     (500, Error ''Cannot read properties of undefined'') \<and>
   snd (patch_customer latin1 no_fault \<lparr>params_id = js ''c1'', body = None\<rparr> example_server) =
     example_server \<and>
   status (put_customer latin1 no_fault \<lparr>params_id = js ''c1'', body = None\<rparr> example_server) =
     400 \<and>
   status (post_customers latin1 no_fault None example_server) = 400"
  by code_simp

text \<open>
  C8: a supplied \<open>cust_name\<close> that trims to the empty string is rejected with 400 before
  any store access, on create, replace and partial update. The code at a partial update
  with the name \<open>"  "\<close>: no validator checks the name there, the handler runs the
  update, answers 200, and the stored name is the empty string.
\<close>

theorem patch_accepts_blank_name:
  "status (patch_customer latin1 no_fault
      \<lparr>params_id = js ''c1'',
       body = Some \<lparr>cust_code = None, cust_name = Some (js ''  ''), cust_city = None\<rparr>\<rparr>
      example_server) = 200 \<and>
   events_of example_server (snd (patch_customer latin1 no_fault
      \<lparr>params_id = js ''c1'',
       body = Some \<lparr>cust_code = None, cust_name = Some (js ''  ''), cust_city = None\<rparr>\<rparr>
      example_server)) = [Acquire, Query (Update [SetName []] (js ''c1'')), Release] \<and>
   customers (snd (patch_customer latin1 no_fault
      \<lparr>params_id = js ''c1'',
       body = Some \<lparr>cust_code = None, cust_name = Some (js ''  ''), cust_city = None\<rparr>\<rparr>
      example_server)) =
     [\<lparr>c_code = js ''c1'', c_name = [], c_city = Some (js ''New York'')\<rparr>]"
  by code_simp

text \<open>
  C9: a city that is present is trimmed and sanitized against markup before it reaches
  the store, on create, partial update and replace. The code at the city \<open><b>\<close>: only
  the create escapes it; the partial update and the replace hand the markup to the
  store, title-cased.
\<close>

theorem city_not_escaped_on_update:
  "events_of example_server (snd (patch_customer latin1 no_fault
      \<lparr>params_id = js ''c1'',
       body = Some \<lparr>cust_code = None, cust_name = None, cust_city = Some (js ''<b>'')\<rparr>\<rparr>
      example_server)) =
     [Acquire, Query (Update [SetCity (Some (js ''<B>''))] (js ''c1'')), Release] \<and>
   events_of example_server (snd (put_customer latin1 no_fault
      \<lparr>params_id = js ''c1'',
       body = Some \<lparr>cust_code = None, cust_name = Some (js ''jane''),
                    cust_city = Some (js ''<b>'')\<rparr>\<rparr>
      example_server)) =
     [Acquire, Query (Update [SetName (js ''Jane''), SetCity (Some (js ''<B>''))] (js ''c1'')),
      Release] \<and>
   events_of example_server (snd (post_customers latin1 no_fault
      (Some \<lparr>cust_code = Some (js ''c2''), cust_name = Some (js ''jane''),
             cust_city = Some (js ''<b>'')\<rparr>)
      example_server)) =
     [Acquire, Query (Insert (js ''c2'') (js ''Jane'') (Some (js ''&Lt;B&Gt;''))), Release]"
  by code_simp

text \<open>
  C10: with \<open>cust_city\<close> supplied as the empty string, a create that answers 201 has
  inserted the row with the city null, a replace that answers 200 has set the city of
  the addressed rows to null, and a partial update that answers 200 has set it to the
  empty string.
\<close>

theorem empty_city_disagreement:
  assumes "cust_city b = Some []" and "body r = Some b"
  shows "(status (post_customers U e (Some b) s) = 201 \<longrightarrow>
            (\<exists>k n. events_of s (snd (post_customers U e (Some b) s)) =
                      [Acquire, Query (Insert k n None), Release] \<and>
                    customers (snd (post_customers U e (Some b) s)) =
                      customers s @ [\<lparr>c_code = k, c_name = n, c_city = None\<rparr>])) \<and>
         (status (put_customer U e r s) = 200 \<longrightarrow>
            (\<exists>n. events_of s (snd (put_customer U e r s)) =
                    [Acquire, Query (Update [SetName n, SetCity None] (trim (params_id r))),
                     Release]) \<and>
            (\<forall>row \<in> set (customers (snd (put_customer U e r s))).
               c_code row = trim (params_id r) \<longrightarrow> c_city row = None)) \<and>
         (status (patch_customer U e r s) = 200 \<longrightarrow>
            (\<exists>as. events_of s (snd (patch_customer U e r s)) =
                     [Acquire, Query (Update as (trim (params_id r))), Release] \<and>
                   SetCity (Some []) \<in> set as) \<and>
            (\<forall>row \<in> set (customers (snd (patch_customer U e r s))).
               c_code row = trim (params_id r) \<longrightarrow> c_city row = Some []))"
proof (intro conjI impI)
  assume "status (post_customers U e (Some b) s) = 201"
  then show "\<exists>k n. events_of s (snd (post_customers U e (Some b) s)) =
                      [Acquire, Query (Insert k n None), Release] \<and>
                    customers (snd (post_customers U e (Some b) s)) =
                      customers s @ [\<lparr>c_code = k, c_name = n, c_city = None\<rparr>]"
    using assms(1)
    by (simp add: post_customers_def handler_defs city_or_null_def trim_Nil escape_Nil
        body_field_def split: if_splits)
next
  assume "status (put_customer U e r s) = 200"
  then show "\<exists>n. events_of s (snd (put_customer U e r s)) =
                    [Acquire, Query (Update [SetName n, SetCity None] (trim (params_id r))),
                     Release]"
    using assms
    by (simp add: put_customer_def handler_defs city_or_null_def trim_Nil body_field_def
        split: if_splits)
next
  assume "status (put_customer U e r s) = 200"
  then show "\<forall>row \<in> set (customers (snd (put_customer U e r s))).
               c_code row = trim (params_id r) \<longrightarrow> c_city row = None"
    using assms
    by (auto simp: put_customer_def handler_defs city_or_null_def trim_Nil apply_update_def
        body_field_def split: if_splits)
next
  assume "status (patch_customer U e r s) = 200"
  then show "\<exists>as. events_of s (snd (patch_customer U e r s)) =
                     [Acquire, Query (Update as (trim (params_id r))), Release] \<and>
                   SetCity (Some []) \<in> set as"
    using assms
    by (auto simp: patch_customer_def handler_defs patch_fields_def trim_Nil titleCase_Nil
        split: if_splits option.splits)
next
  assume "status (patch_customer U e r s) = 200"
  then show "\<forall>row \<in> set (customers (snd (patch_customer U e r s))).
               c_code row = trim (params_id r) \<longrightarrow> c_city row = Some []"
    using assms
    by (auto simp: patch_customer_def handler_defs patch_fields_def trim_Nil titleCase_Nil
        apply_update_def split: if_splits option.splits)
qed

text \<open>
  C10 at a body with the city \<open>""\<close>: the create and the replace store null, the
  partial update stores the empty string.
\<close>

theorem empty_city_disagreement_witness:
  "(\<exists>k n. events_of example_server (snd (post_customers latin1 no_fault
      (Some \<lparr>cust_code = Some (js ''c2''), cust_name = Some (js ''john roe''), cust_city = Some []\<rparr>)
      example_server)) = [Acquire, Query (Insert k n None), Release] \<and>
      customers (snd (post_customers latin1 no_fault
      (Some \<lparr>cust_code = Some (js ''c2''), cust_name = Some (js ''john roe''), cust_city = Some []\<rparr>)
      example_server)) =
      customers example_server @ [\<lparr>c_code = k, c_name = n, c_city = None\<rparr>]) \<and>
   customers (snd (post_customers latin1 no_fault
      (Some \<lparr>cust_code = Some (js ''c2''), cust_name = Some (js ''john roe''), cust_city = Some []\<rparr>)
      example_server)) =
     [\<lparr>c_code = js ''c1'', c_name = js ''Jane Doe'', c_city = Some (js ''New York'')\<rparr>,
      \<lparr>c_code = js ''c2'', c_name = js ''John Roe'', c_city = None\<rparr>] \<and>
   customers (snd (put_customer latin1 no_fault
      \<lparr>params_id = js ''c1'',
       body = Some \<lparr>cust_code = Some (js ''c2''), cust_name = Some (js ''john roe''),
                    cust_city = Some []\<rparr>\<rparr>
      example_server)) =
     [\<lparr>c_code = js ''c1'', c_name = js ''John Roe'', c_city = None\<rparr>] \<and>
   customers (snd (patch_customer latin1 no_fault
      \<lparr>params_id = js ''c1'',
       body = Some \<lparr>cust_code = Some (js ''c2''), cust_name = Some (js ''john roe''),
                    cust_city = Some []\<rparr>\<rparr>
      example_server)) =
     [\<lparr>c_code = js ''c1'', c_name = js ''John Roe'', c_city = Some []\<rparr>] \<and>
   (\<exists>n. events_of example_server (snd (put_customer latin1 no_fault
      \<lparr>params_id = js ''c1'',
       body = Some \<lparr>cust_code = Some (js ''c2''), cust_name = Some (js ''john roe''),
                    cust_city = Some []\<rparr>\<rparr>
      example_server)) =
      [Acquire, Query (Update [SetName n, SetCity None] (js ''c1'')), Release]) \<and>
   (\<exists>as. events_of example_server (snd (patch_customer latin1 no_fault
      \<lparr>params_id = js ''c1'',
       body = Some \<lparr>cust_code = Some (js ''c2''), cust_name = Some (js ''john roe''),
                    cust_city = Some []\<rparr>\<rparr>
      example_server)) =
      [Acquire, Query (Update as (js ''c1'')), Release] \<and> SetCity (Some []) \<in> set as)"
proof -
  let ?b = "\<lparr>cust_code = Some (js ''c2''), cust_name = Some (js ''john roe''),
             cust_city = Some []\<rparr>"
  let ?r = "\<lparr>params_id = js ''c1'', body = Some ?b\<rparr>"
  have h: "cust_city ?b = Some []" and h': "body ?r = Some ?b" by simp_all
  have t: "trim (params_id ?r) = js ''c1''" by code_simp
  have 1: "customers (snd (post_customers latin1 no_fault (Some ?b) example_server)) =
     [\<lparr>c_code = js ''c1'', c_name = js ''Jane Doe'', c_city = Some (js ''New York'')\<rparr>,
      \<lparr>c_code = js ''c2'', c_name = js ''John Roe'', c_city = None\<rparr>]" by code_simp
  have 2: "customers (snd (put_customer latin1 no_fault ?r example_server)) =
     [\<lparr>c_code = js ''c1'', c_name = js ''John Roe'', c_city = None\<rparr>]" by code_simp
  have 3: "customers (snd (patch_customer latin1 no_fault ?r example_server)) =
     [\<lparr>c_code = js ''c1'', c_name = js ''John Roe'', c_city = Some []\<rparr>]" by code_simp
  have 4: "status (post_customers latin1 no_fault (Some ?b) example_server) = 201" by code_simp
  have 5: "status (put_customer latin1 no_fault ?r example_server) = 200" by code_simp
  have 6: "status (patch_customer latin1 no_fault ?r example_server) = 200" by code_simp
  note d = empty_city_disagreement [OF h h', of latin1 no_fault example_server]
  from d 4 have 7: "\<exists>k n. events_of example_server
        (snd (post_customers latin1 no_fault (Some ?b) example_server)) =
      [Acquire, Query (Insert k n None), Release] \<and>
      customers (snd (post_customers latin1 no_fault (Some ?b) example_server)) =
      customers example_server @ [\<lparr>c_code = k, c_name = n, c_city = None\<rparr>]"
    by blast
  from d 5 have 8: "\<exists>n. events_of example_server
        (snd (put_customer latin1 no_fault ?r example_server)) =
      [Acquire, Query (Update [SetName n, SetCity None] (js ''c1'')), Release]"
    unfolding t by blast
  from d 6 have 9: "\<exists>as. events_of example_server
        (snd (patch_customer latin1 no_fault ?r example_server)) =
      [Acquire, Query (Update as (js ''c1'')), Release] \<and> SetCity (Some []) \<in> set as"
    unfolding t by blast
  from 1 2 3 7 8 9 show ?thesis by (intro conjI)
qed

end
